theory Spec2Isabelle
  imports Complex_Main "HOL-Library.Multiset" "HOL-Library.Word"
begin

section \<open>Data model\<close>

text \<open>
  A Python \<open>str\<close> is a sequence of Unicode code points; the labels and the key words of
  the program are Chinese text, so a string is modelled as the list of its code points.
  A spreadsheet cell is a whole number, which \<open>pd.read_excel\<close> reads as a 64-bit integer,
  or a text.
\<close>

type_synonym ustring = "nat list"

datatype cell = Num "64 word" | Str ustring

text \<open>
  One row of the sheet as \<open>pd.read_excel\<close> returns it. The stock code (column U+80A1
  U+7968 U+4EE3 U+7801) is a cell: a code of digits only comes as a number, any other code
  as a text. The company name (U+4F01 U+4E1A U+540D U+79F0) and the total word count
  (U+603B U+8BCD U+9891 U+6570) are fixed columns; the remaining columns are kept by
  label, since the program reads them through the keys of \<open>TECH_WEIGHTS\<close>.
\<close>

record raw_row =
  stock_code :: cell
  company_name :: ustring
  freq :: "(ustring \<times> cell) list"
  total_word_count :: int

text \<open>
  A row of the enriched data frame: the columns read, the derived index
  (\<open>df[digitalization index]\<close>), a double seen as the real number it denotes, and the
  derived industry label (\<open>df[industry]\<close>).
\<close>

record company = raw_row +
  digitalization_index :: real
  industry :: ustring

datatype error =
    KeyError ustring
  | TypeError
  | ReadError ustring
  | ReError
  | AttributeError
  | StreamlitAPIException

text \<open>The file at \<open>DEFAULT_FILE_PATH\<close>: absent, or present with the outcome of \<open>pd.read_excel\<close>.\<close>

datatype excel_file = Absent | Present "error + raw_row list"

text \<open>What the program shows through \<open>st.error\<close>, \<open>st.success\<close> and \<open>st.warning\<close>.\<close>

datatype message =
    FileMissingError
  | ProcessingError error
  | Success nat
  | LoadWarning

text \<open>
  What the program takes from its libraries and its interpreter, none of it part of the
  repository:
  \<^item> \<open>char_eq p c\<close>: the literal pattern character \<open>p\<close> matches the subject character
    \<open>c\<close> under \<open>re.IGNORECASE\<close> (the Unicode case tables);
  \<^item> \<open>re_beyond pat\<close>: what \<open>re.compile(pat, re.IGNORECASE)\<close> gives for a pattern with
    metacharacters other than the alternation bar, \<open>None\<close> when it raises \<open>re.error\<close>,
    otherwise the test \<open>search(s) is not None\<close>;
  \<^item> \<open>compensated_sum\<close>: whether \<open>sum\<close> adds floats with Neumaier's compensation
    (CPython from 3.12 on) or one after the other (before);
  \<^item> \<open>tie_rank keys k\<close>: the rank that the default, unstable sorting algorithm of
    \<open>sort_values\<close> gives the row at position \<open>k\<close> among the rows with the same key.
\<close>

record platform =
  char_eq :: "nat \<Rightarrow> nat \<Rightarrow> bool"
  re_beyond :: "ustring \<Rightarrow> (ustring \<Rightarrow> bool) option"
  compensated_sum :: bool
  tie_rank :: "real list \<Rightarrow> nat \<Rightarrow> nat"

section \<open>Double arithmetic\<close>

text \<open>
  A Python \<open>float\<close> is an IEEE double. A double is kept as a pair \<open>(m, e)\<close> that denotes
  \<open>m * 2 ^ e\<close>; every operation computes the exact result and rounds it to 53 significant
  bits, ties to the even mantissa. The exponent is not bounded: with 64-bit integer cells
  and weights below 1 no product or sum comes near the overflow or the subnormal range.
\<close>

type_synonym double = "int \<times> int"

definition dvalue :: "double \<Rightarrow> real" where
  "dvalue x =
     (case x of (m, e) \<Rightarrow> if 0 \<le> e then of_int m * 2 ^ nat e else of_int m / 2 ^ nat (- e))"

text \<open>The number of bits of a positive integer.\<close>

function bitlen :: "int \<Rightarrow> nat" where
  "bitlen n = (if n \<le> 0 then 0 else Suc (bitlen (n div 2)))"
  by pat_completeness auto
termination
  by (relation "measure nat") auto

text \<open>
  The double nearest to \<open>p / q\<close> (\<open>q\<close> positive): \<open>lg\<close> is the exponent of the leading
  bit, \<open>m\<close> the first 53 bits, \<open>r\<close> what is left.
\<close>

definition round_ratio :: "int \<Rightarrow> int \<Rightarrow> double" where
  "round_ratio p q =
     (if p = 0 then (0, 0)
      else
        let a = \<bar>p\<bar>;
            d = int (bitlen a) - int (bitlen q);
            lg = (if q * 2 ^ nat d \<le> a * 2 ^ nat (- d) then d else d - 1);
            e = lg - 52;
            num = a * 2 ^ nat (- e);
            den = q * 2 ^ nat e;
            m = num div den;
            r = num mod den;
            m' = (if den < 2 * r \<or> (2 * r = den \<and> odd m) then m + 1 else m)
        in (sgn p * m', e))"

definition round_dyadic :: "int \<Rightarrow> int \<Rightarrow> double" where
  "round_dyadic m e =
     (if 0 \<le> e then round_ratio (m * 2 ^ nat e) 1 else round_ratio m (2 ^ nat (- e)))"

text \<open>The double that the decimal literal \<open>p / q\<close> denotes, and \<open>float(a)\<close> of an integer.\<close>

definition float_literal :: "int \<Rightarrow> int \<Rightarrow> double" where
  "float_literal p q = round_ratio p q"

definition float_of_int :: "int \<Rightarrow> double" where
  "float_of_int a = round_ratio a 1"

definition fmul :: "double \<Rightarrow> double \<Rightarrow> double" where
  "fmul x y = (case x of (m1, e1) \<Rightarrow> case y of (m2, e2) \<Rightarrow> round_dyadic (m1 * m2) (e1 + e2))"

definition fadd :: "double \<Rightarrow> double \<Rightarrow> double" where
  "fadd x y =
     (case x of (m1, e1) \<Rightarrow> case y of (m2, e2) \<Rightarrow>
        let e = min e1 e2 in round_dyadic (m1 * 2 ^ nat (e1 - e) + m2 * 2 ^ nat (e2 - e)) e)"

definition fsub :: "double \<Rightarrow> double \<Rightarrow> double" where
  "fsub x y = (case y of (m2, e2) \<Rightarrow> fadd x (- m2, e2))"

text \<open>
  Python's \<open>sum\<close> over floats. The first item is added to the integer 0. CPython up to
  3.11 then adds the items one after the other; from 3.12 on it keeps the rounding errors
  in \<open>c\<close> (Neumaier) and adds them at the end when they are not zero.
\<close>

fun neumaier_loop :: "double \<Rightarrow> double \<Rightarrow> double list \<Rightarrow> double" where
  "neumaier_loop f_result c [] = (if fst c \<noteq> 0 then fadd f_result c else f_result)"
| "neumaier_loop f_result c (x # xs) =
     (let t = fadd f_result x;
          c' = (if \<bar>dvalue f_result\<bar> \<ge> \<bar>dvalue x\<bar> then fadd c (fadd (fsub f_result t) x)
                else fadd c (fadd (fsub x t) f_result))
      in neumaier_loop t c' xs)"

fun py_sum :: "bool \<Rightarrow> double list \<Rightarrow> double" where
  "py_sum compensated [] = (0, 0)"
| "py_sum compensated (x # xs) =
     (if compensated then neumaier_loop (fadd (float_of_int 0) x) (0, 0) xs
      else foldl fadd (fadd (float_of_int 0) x) xs)"

section \<open>Configuration tables\<close>

text \<open>
  \<open>INDUSTRY_MAPPING\<close> in its insertion order (the order a Python dict iterates in):
  finance, real estate, manufacturing, transport, energy, information technology,
  healthcare, consumer, education, media. \<open>OTHER\<close> is the default label.
\<close>

definition FINANCE :: ustring where
  "FINANCE = [37329, 34701]"

definition REAL_ESTATE :: ustring where
  "REAL_ESTATE = [25151, 22320, 20135]"

definition MANUFACTURING :: ustring where
  "MANUFACTURING = [21046, 36896, 19994]"

definition TRANSPORT :: ustring where
  "TRANSPORT = [20132, 36890, 36816, 36755]"

definition ENERGY :: ustring where
  "ENERGY = [33021, 28304]"

definition INFO_TECH :: ustring where
  "INFO_TECH = [20449, 24687, 25216, 26415]"

definition HEALTHCARE :: ustring where
  "HEALTHCARE = [21307, 30103, 20581, 24247]"

definition CONSUMER :: ustring where
  "CONSUMER = [28040, 36153]"

definition EDUCATION :: ustring where
  "EDUCATION = [25945, 32946]"

definition MEDIA :: ustring where
  "MEDIA = [20256, 23186]"

definition OTHER :: ustring where
  "OTHER = [20854, 20182]"

definition INDUSTRY_MAPPING :: "(ustring \<times> ustring list) list" where
  "INDUSTRY_MAPPING =
    [(FINANCE, [ [38134, 34892], [20445, 38505], [35777, 21048], [37329, 34701], [22522, 37329], [25237, 36164], [20449, 25176] ]),
     (REAL_ESTATE, [ [22320, 20135], [32622, 19994], [25151, 20135], [29289, 19994], [25151, 22320, 20135] ]),
     (MANUFACTURING, [ [21046, 36896], [24037, 19994], [31185, 25216], [30005, 23376], [26426, 26800], [35774, 22791], [27773, 36710] ]),
     (TRANSPORT, [ [33322, 31354], [38081, 36335], [29289, 27969], [28207, 21475], [36816, 36755], [20132, 36890], [33322, 36816] ]),
     (ENERGY, [ [30005, 21147], [30707, 27833], [29028, 28845], [33021, 28304], [29123, 27668], [26032, 33021, 28304] ]),
     (INFO_TECH, [ [20449, 24687], [25216, 26415], [36719, 20214], [20114, 32852, 32593], [35745, 31639, 26426], [36890, 20449] ]),
     (HEALTHCARE, [ [21307, 30103], [21307, 33647], [20581, 24247], [29983, 29289], [21046, 33647] ]),
     (CONSUMER, [ [38646, 21806], [39135, 21697], [39278, 26009], [28040, 36153], [23478, 30005], [26381, 35013] ]),
     (EDUCATION, [ [25945, 32946], [22521, 35757], [23398, 26657] ]),
     (MEDIA, [ [20256, 23186], [24191, 21578], [23089, 20048], [24433, 35270], [20986, 29256] ])]"

text \<open>
  \<open>TECH_WEIGHTS\<close>: the five weighted technology columns, in insertion order, with the
  doubles that the literals 0.3, 0.1, 0.25, 0.15 and 0.2 denote.
\<close>

definition AI_TECH :: ustring where
  "AI_TECH = [20154, 24037, 26234, 33021, 25216, 26415]"

definition BLOCKCHAIN_TECH :: ustring where
  "BLOCKCHAIN_TECH = [21306, 22359, 38142, 25216, 26415]"

definition BIG_DATA_TECH :: ustring where
  "BIG_DATA_TECH = [22823, 25968, 25454, 25216, 26415]"

definition CLOUD_TECH :: ustring where
  "CLOUD_TECH = [20113, 35745, 31639, 25216, 26415]"

definition DIGITAL_APPLICATION :: ustring where
  "DIGITAL_APPLICATION = [25968, 23383, 25216, 26415, 24212, 29992]"

definition TECH_WEIGHTS :: "(ustring \<times> double) list" where
  "TECH_WEIGHTS =
    [(AI_TECH, float_literal 3 10),
     (BLOCKCHAIN_TECH, float_literal 1 10),
     (BIG_DATA_TECH, float_literal 25 100),
     (CLOUD_TECH, float_literal 15 100),
     (DIGITAL_APPLICATION, float_literal 2 10)]"

section \<open>Regular expressions of \<open>str.contains\<close>\<close>

text \<open>
  \<open>Series.str.contains(pat, case=False)\<close> compiles \<open>pat\<close> as a regular expression with
  \<open>re.IGNORECASE\<close> and keeps the rows where \<open>re.search\<close> finds a match. A pattern made of
  literal characters and alternation bars is searched here: it matches where one of its
  alternatives occurs, character by character under \<open>char_eq\<close>. A pattern with any other
  metacharacter is left to \<open>re_beyond\<close>.
\<close>

type_synonym ceq = "nat \<Rightarrow> nat \<Rightarrow> bool"

definition BAR :: nat where
  "BAR = 124"

definition METACHARS :: "nat list" where
  "METACHARS = [46, 94, 36, 42, 43, 63, 123, 125, 91, 93, 92, 40, 41]"

fun split_bar :: "ustring \<Rightarrow> ustring list" where
  "split_bar [] = [ [] ]"
| "split_bar (c # cs) =
     (if c = BAR then [] # split_bar cs
      else (case split_bar cs of [] \<Rightarrow> [ [c] ] | a # as \<Rightarrow> (c # a) # as))"

fun match_here :: "ceq \<Rightarrow> ustring \<Rightarrow> ustring \<Rightarrow> bool" where
  "match_here ceq [] s = True"
| "match_here ceq (p # ps) [] = False"
| "match_here ceq (p # ps) (c # cs) = (ceq p c \<and> match_here ceq ps cs)"

fun re_search :: "ceq \<Rightarrow> ustring list \<Rightarrow> ustring \<Rightarrow> bool" where
  "re_search ceq alts [] = list_ex (\<lambda>a. match_here ceq a []) alts"
| "re_search ceq alts (c # cs) =
     (list_ex (\<lambda>a. match_here ceq a (c # cs)) alts \<or> re_search ceq alts cs)"

definition re_compile :: "platform \<Rightarrow> ustring \<Rightarrow> (ustring \<Rightarrow> bool) option" where
  "re_compile pf pat =
     (if list_ex (\<lambda>c. c \<in> set METACHARS) pat then re_beyond pf pat
      else Some (re_search (char_eq pf) (split_bar pat)))"

text \<open>On a column of texts.\<close>

definition str_contains :: "platform \<Rightarrow> ustring \<Rightarrow> ustring list \<Rightarrow> error + bool list" where
  "str_contains pf pat col =
     (case re_compile pf pat of
        None \<Rightarrow> Inl ReError
      | Some found \<Rightarrow> Inr (map found col))"

text \<open>
  On a column of cells (dtype object): a cell that is not a text gives NaN, here \<open>None\<close>.
\<close>

definition str_contains_cells :: "platform \<Rightarrow> ustring \<Rightarrow> cell list \<Rightarrow> error + bool option list" where
  "str_contains_cells pf pat col =
     (case re_compile pf pat of
        None \<Rightarrow> Inl ReError
      | Some found \<Rightarrow> Inr (map (\<lambda>c. case c of Str s \<Rightarrow> Some (found s) | Num n \<Rightarrow> None) col))"

text \<open>\<open>'|'.join(...)\<close> of the key words of one industry (\<open>kws\<close>).\<close>

fun join_bar :: "ustring list \<Rightarrow> ustring" where
  "join_bar [] = []"
| "join_bar [k] = k"
| "join_bar (k # ks) = k @ BAR # join_bar ks"

section \<open>Loading: index and industry\<close>

text \<open>
  \<open>row[tech] * weight\<close>: a missing column is a KeyError, a text cell a TypeError; a number
  is converted to a double and multiplied.
\<close>

definition row_get :: "(ustring \<times> cell) list \<Rightarrow> ustring \<Rightarrow> error + cell" where
  "row_get row k = (case map_of row k of None \<Rightarrow> Inl (KeyError k) | Some c \<Rightarrow> Inr c)"

definition cell_times :: "cell \<Rightarrow> double \<Rightarrow> error + double" where
  "cell_times c w =
     (case c of Num a \<Rightarrow> Inr (fmul (float_of_int (sint a)) w) | Str s \<Rightarrow> Inl TypeError)"

text \<open>The items of the generator in the order of \<open>TECH_WEIGHTS.items()\<close>; the first failure ends it.\<close>

fun products :: "(ustring \<times> cell) list \<Rightarrow> (ustring \<times> double) list \<Rightarrow> error + double list" where
  "products row [] = Inr []"
| "products row ((tech, weight) # ts) =
     (case row_get row tech of
        Inl e \<Rightarrow> Inl e
      | Inr c \<Rightarrow>
          (case cell_times c weight of
             Inl e \<Rightarrow> Inl e
           | Inr p \<Rightarrow>
               (case products row ts of
                  Inl e \<Rightarrow> Inl e
                | Inr ps \<Rightarrow> Inr (p # ps))))"

definition weighted_sum :: "bool \<Rightarrow> (ustring \<times> cell) list \<Rightarrow> (ustring \<times> double) list \<Rightarrow> error + double" where
  "weighted_sum compensated row table =
     (case products row table of
        Inl e \<Rightarrow> Inl e
      | Inr ps \<Rightarrow> Inr (py_sum compensated ps))"

text \<open>
  \<open>df.apply(lambda row: ..., axis=1)\<close>: row by row, the first failure ends it. A sheet
  without rows gives no index and no failure here; the data frame is empty either way.
\<close>

fun index_column :: "bool \<Rightarrow> raw_row list \<Rightarrow> error + real list" where
  "index_column compensated [] = Inr []"
| "index_column compensated (r # rs) =
     (case weighted_sum compensated (freq r) TECH_WEIGHTS of
        Inl e \<Rightarrow> Inl e
      | Inr x \<Rightarrow>
          (case index_column compensated rs of
             Inl e \<Rightarrow> Inl e
           | Inr xs \<Rightarrow> Inr (dvalue x # xs)))"

definition with_columns :: "raw_row \<Rightarrow> real \<Rightarrow> ustring \<Rightarrow> company" where
  "with_columns r x l =
     \<lparr>stock_code = stock_code r, company_name = company_name r, freq = freq r,
      total_word_count = total_word_count r, digitalization_index = x, industry = l\<rparr>"

text \<open>
  The loop over \<open>INDUSTRY_MAPPING.items()\<close>: each industry overwrites the label of the
  rows whose company name its pattern is found in.
\<close>

fun assign_loop :: "platform \<Rightarrow> (ustring \<times> ustring list) list \<Rightarrow> company list \<Rightarrow> error + company list" where
  "assign_loop pf [] df = Inr df"
| "assign_loop pf ((ind, kws) # rest) df =
     (case str_contains pf (join_bar kws) (map company_name df) of
        Inl e \<Rightarrow> Inl e
      | Inr hits \<Rightarrow>
          assign_loop pf rest
            (map (\<lambda>(m, r). if m then r\<lparr>industry := ind\<rparr> else r) (zip hits df)))"

definition process :: "platform \<Rightarrow> raw_row list \<Rightarrow> error + company list" where
  "process pf sheet =
     (case index_column (compensated_sum pf) sheet of
        Inl e \<Rightarrow> Inl e
      | Inr idx \<Rightarrow>
          assign_loop pf INDUSTRY_MAPPING
            (map (\<lambda>(r, x). with_columns r x OTHER) (zip sheet idx)))"

definition load_and_calculate_index :: "platform \<Rightarrow> excel_file \<Rightarrow> company list \<times> message list" where
  "load_and_calculate_index pf f =
     (case f of
        Absent \<Rightarrow> ([], [FileMissingError])
      | Present rd \<Rightarrow>
          (case (case rd of Inl e \<Rightarrow> Inl e | Inr sheet \<Rightarrow> process pf sheet) of
             Inl e \<Rightarrow> ([], [ProcessingError e])
           | Inr df \<Rightarrow> (df, [Success (length df)])))"

section \<open>Filtering and presentation\<close>

text \<open>The industry filter runs only when the selection is not empty.\<close>

definition industry_filter :: "ustring list \<Rightarrow> company list \<Rightarrow> company list" where
  "industry_filter selected_industries df =
     (if selected_industries \<noteq> [] then filter (\<lambda>r. industry r \<in> set selected_industries) df
      else df)"

definition range_filter :: "real \<times> real \<Rightarrow> company list \<Rightarrow> company list" where
  "range_filter index_range df =
     filter (\<lambda>r. digitalization_index r \<ge> fst index_range \<and>
                 digitalization_index r \<le> snd index_range) df"

text \<open>\<open>df[hits]\<close>: the rows at the positions where the boolean column is true.\<close>

definition select_rows :: "bool list \<Rightarrow> 'a list \<Rightarrow> 'a list" where
  "select_rows hits df = map snd (filter fst (zip hits df))"

text \<open>
  The \<open>.str\<close> accessor of the stock-code column raises AttributeError when the column was
  read as numbers (\<open>numeric_codes\<close>: no code of the sheet is a text), and also when the
  rows at hand are not empty and hold no text at all.
\<close>

definition is_text :: "cell \<Rightarrow> bool" where
  "is_text c = (case c of Str s \<Rightarrow> True | Num n \<Rightarrow> False)"

definition cell_text :: "cell \<Rightarrow> ustring" where
  "cell_text c = (case c of Str s \<Rightarrow> s | Num n \<Rightarrow> [])"

definition str_accessor :: "bool \<Rightarrow> cell list \<Rightarrow> bool" where
  "str_accessor numeric_codes col = (\<not> numeric_codes \<and> (col = [] \<or> list_ex is_text col))"

text \<open>\<open>a | b\<close> of a column with NaN and a boolean column: NaN gives False.\<close>

definition or_na :: "bool option \<Rightarrow> bool \<Rightarrow> bool" where
  "or_na a b = (case a of None \<Rightarrow> False | Some x \<Rightarrow> x \<or> b)"

definition search_filter :: "platform \<Rightarrow> bool \<Rightarrow> ustring \<Rightarrow> company list \<Rightarrow> error + company list" where
  "search_filter pf numeric_codes search_term df =
     (if search_term \<noteq> [] then
        (if \<not> str_accessor numeric_codes (map stock_code df) then Inl AttributeError
         else
           (case str_contains_cells pf search_term (map stock_code df) of
              Inl e \<Rightarrow> Inl e
            | Inr by_code \<Rightarrow>
                (case str_contains pf search_term (map company_name df) of
                   Inl e \<Rightarrow> Inl e
                 | Inr by_name \<Rightarrow> Inr (select_rows (map2 or_na by_code by_name) df))))
      else Inr df)"

definition apply_filters ::
  "platform \<Rightarrow> bool \<Rightarrow> ustring list \<Rightarrow> real \<times> real \<Rightarrow> ustring \<Rightarrow> company list \<Rightarrow> error + company list" where
  "apply_filters pf numeric_codes selected_industries index_range search_term df =
     search_filter pf numeric_codes search_term
       (range_filter index_range (industry_filter selected_industries df))"

text \<open>
  \<open>filtered_df.sort_values(by=index, ascending=False).head(10)\<close>: the rows in descending
  order of the index. No algorithm is asked for, so the library sorts with its default,
  which is not stable: among rows with the same index the order is that of \<open>tie_rank\<close>
  (and the original one where the ranks are equal too).
\<close>

definition sort_values_desc :: "platform \<Rightarrow> company list \<Rightarrow> company list" where
  "sort_values_desc pf df =
     (let keys = map digitalization_index df
      in map snd
           (sort_key (\<lambda>(k, r). - digitalization_index r)
              (sort_key (\<lambda>(k, r). tie_rank pf keys k) (zip [0 ..< length df] df))))"

definition top10 :: "platform \<Rightarrow> company list \<Rightarrow> company list" where
  "top10 pf filtered_df = take 10 (sort_values_desc pf filtered_df)"

text \<open>
  The widgets of the sidebar. \<open>Series.unique()\<close> keeps the first occurrences in order. A
  choice is \<open>None\<close> while the user has not touched the widget; a widget returns only
  options it offers, so a choice outside them counts as none. The slider refuses bounds
  that are not apart (StreamlitAPIException).
\<close>

definition unique :: "'a list \<Rightarrow> 'a list" where
  "unique xs = rev (remdups (rev xs))"

definition multiselect :: "ustring list \<Rightarrow> ustring list option \<Rightarrow> ustring list" where
  "multiselect options choice =
     (case choice of
        None \<Rightarrow> options
      | Some sel \<Rightarrow> if list_all (\<lambda>l. l \<in> set options) sel then sel else options)"

definition slider :: "real \<Rightarrow> real \<Rightarrow> (real \<times> real) option \<Rightarrow> error + real \<times> real" where
  "slider min_value max_value choice =
     (if min_value \<ge> max_value then Inl StreamlitAPIException
      else
        Inr (case choice of
               None \<Rightarrow> (min_value, max_value)
             | Some (lo, hi) \<Rightarrow>
                 if min_value \<le> lo \<and> lo \<le> hi \<and> hi \<le> max_value then (lo, hi)
                 else (min_value, max_value)))"

text \<open>
  What \<open>main\<close> puts on the page: nothing after the warning when the data frame is empty,
  otherwise the result table and the Top-10 table (the histogram is drawn from the same
  filtered view and is not modelled). A failure of the slider or of the text filter is
  not caught.
\<close>

datatype page = Halted | Page "company list" "company list"

definition main ::
  "platform \<Rightarrow> excel_file \<Rightarrow> ustring list option \<Rightarrow> (real \<times> real) option \<Rightarrow> ustring
     \<Rightarrow> message list \<times> (error + page)" where
  "main pf f industry_choice range_choice search_term =
     (case load_and_calculate_index pf f of
        (df, msgs) \<Rightarrow>
          (case df of
             [] \<Rightarrow> (msgs @ [LoadWarning], Inr Halted)
           | r # rs \<Rightarrow>
               (let industries = unique (map industry df);
                    selected_industries = multiselect industries industry_choice;
                    min_index = fold min (map digitalization_index rs) (digitalization_index r);
                    max_index = fold max (map digitalization_index rs) (digitalization_index r)
                in case slider min_index max_index range_choice of
                     Inl e \<Rightarrow> (msgs, Inl e)
                   | Inr index_range \<Rightarrow>
                       (case apply_filters pf (\<not> list_ex is_text (map stock_code df))
                               selected_industries index_range search_term df of
                          Inl e \<Rightarrow> (msgs, Inl e)
                        | Inr filtered_df \<Rightarrow>
                            (msgs, Inr (Page filtered_df (top10 pf filtered_df)))))))"

section \<open>Notions of the specification\<close>

text \<open>The term occurs in the string as a substring, case ignored.\<close>

definition ci_substring :: "ceq \<Rightarrow> ustring \<Rightarrow> ustring \<Rightarrow> bool" where
  "ci_substring ceq t s = (\<exists>pre mid post. s = pre @ mid @ post \<and> list_all2 ceq t mid)"

text \<open>The name contains one of the keywords of the list.\<close>

definition kw_match :: "ceq \<Rightarrow> ustring list \<Rightarrow> ustring \<Rightarrow> bool" where
  "kw_match ceq kws name = (\<exists>k \<in> set kws. ci_substring ceq k name)"

text \<open>The entries of the industry table whose keyword list the name matches, in table order.\<close>

definition matching :: "ceq \<Rightarrow> ustring \<Rightarrow> (ustring \<times> ustring list) list" where
  "matching ceq name = filter (\<lambda>(ind, kws). kw_match ceq kws name) INDUSTRY_MAPPING"

text \<open>The eleven labels: the ten industries and the default.\<close>

definition LABELS :: "ustring list" where
  "LABELS = map fst INDUSTRY_MAPPING @ [OTHER]"

text \<open>Rows in descending order of the index.\<close>

definition sorted_desc :: "company list \<Rightarrow> bool" where
  "sorted_desc df = sorted_wrt (\<lambda>a b. digitalization_index a \<ge> digitalization_index b) df"

section \<open>Auxiliary notions\<close>

text \<open>A string without the alternation bar and without any other metacharacter.\<close>

definition literal :: "ustring \<Rightarrow> bool" where
  "literal k = list_all (\<lambda>c. c \<noteq> BAR \<and> c \<notin> set METACHARS) k"

definition table_ok :: "(ustring \<times> ustring list) list \<Rightarrow> bool" where
  "table_ok tbl = list_all (\<lambda>(ind, kws). kws \<noteq> [] \<and> list_all literal kws) tbl"

text \<open>
  The label a single name gets from the loop: every matching entry overwrites the label
  found so far.
\<close>

fun label_fold :: "ceq \<Rightarrow> (ustring \<times> ustring list) list \<Rightarrow> ustring \<Rightarrow> ustring \<Rightarrow> ustring" where
  "label_fold ceq [] name l = l"
| "label_fold ceq ((ind, kws) # rest) name l =
     label_fold ceq rest name (if kw_match ceq kws name then ind else l)"

definition label_of :: "ceq \<Rightarrow> ustring \<Rightarrow> ustring" where
  "label_of ceq name = label_fold ceq INDUSTRY_MAPPING name OTHER"

section \<open>Sample data\<close>

text \<open>
  A platform for evaluating the model: case folding of the ASCII letters (the other
  characters of the samples have no case), the plain summation, equal ranks for rows
  with the same index, and an engine that refuses every pattern handed to it; no
  evaluation below hands it one.
\<close>

definition ascii_lower :: "nat \<Rightarrow> nat" where
  "ascii_lower c = (if 65 \<le> c \<and> c \<le> 90 then c + 32 else c)"

definition ascii_ceq :: ceq where
  "ascii_ceq p c = (ascii_lower p = ascii_lower c)"

definition sample_platform :: platform where
  "sample_platform =
     \<lparr>char_eq = ascii_ceq, re_beyond = (\<lambda>pat. None), compensated_sum = False,
      tie_rank = (\<lambda>keys k. 0)\<rparr>"

text \<open>
  Rows for evaluating the model, with stock codes that are texts (\<open>SZ000001\<close> and the
  like): a bank (name U+5E73 U+5B89 U+94F6 U+884C) with the frequencies 10, 5, 8, 4, 6; a
  second row with the same name and other values; a company whose name holds a finance
  keyword and an information-technology keyword (U+94F6 U+884C U+8F6F U+4EF6); a company
  with a Latin name (Acme Ltd) and no keyword; a row whose sheet lacks the cloud column.
\<close>

definition sample_freq ::
  "64 word \<Rightarrow> 64 word \<Rightarrow> 64 word \<Rightarrow> 64 word \<Rightarrow> 64 word \<Rightarrow> (ustring \<times> cell) list" where
  "sample_freq a b c d e =
     [(AI_TECH, Num a), (BLOCKCHAIN_TECH, Num b), (BIG_DATA_TECH, Num c), (CLOUD_TECH, Num d),
      (DIGITAL_APPLICATION, Num e)]"

definition bank_row :: raw_row where
  "bank_row =
     \<lparr>stock_code = Str [83, 90, 48, 48, 48, 48, 48, 49],
      company_name = [24179, 23433, 38134, 34892],
      freq = sample_freq 10 5 8 4 6, total_word_count = 1000\<rparr>"

definition bank_company :: company where
  "bank_company = with_columns bank_row (dvalue (float_literal 73 10)) FINANCE"

definition bank_row_b :: raw_row where
  "bank_row_b =
     \<lparr>stock_code = Str [83, 72, 54, 48, 48, 48, 51, 54],
      company_name = [24179, 23433, 38134, 34892],
      freq = sample_freq 1 1 0 0 0, total_word_count = 52\<rparr>"

definition bank_company_b :: company where
  "bank_company_b = with_columns bank_row_b (dvalue (float_literal 4 10)) FINANCE"

definition bank_software_row :: raw_row where
  "bank_software_row =
     \<lparr>stock_code = Str [83, 72, 54, 48, 48, 53, 56, 56],
      company_name = [38134, 34892, 36719, 20214],
      freq = sample_freq 1 0 2 0 0, total_word_count = 40\<rparr>"

definition bank_software_company :: company where
  "bank_software_company = with_columns bank_software_row (dvalue (float_literal 8 10)) INFO_TECH"

definition acme_row :: raw_row where
  "acme_row =
     \<lparr>stock_code = Str [83, 90, 51, 48, 48, 55, 53, 48],
      company_name = [65, 99, 109, 101, 32, 76, 116, 100],
      freq = sample_freq 0 0 4 0 0, total_word_count = 7\<rparr>"

definition acme_company :: company where
  "acme_company = with_columns acme_row 1 OTHER"

definition broken_row :: raw_row where
  "broken_row =
     \<lparr>stock_code = Str [83, 90, 48, 48, 48, 48, 48, 50],
      company_name = [24179, 23433, 38134, 34892],
      freq = [(AI_TECH, Num 10), (BLOCKCHAIN_TECH, Num 5), (BIG_DATA_TECH, Num 8),
              (DIGITAL_APPLICATION, Num 6)],
      total_word_count = 1000\<rparr>"

section \<open>Lemmas: patterns and substrings\<close>

lemma split_bar_no_bar: "BAR \<notin> set k \<Longrightarrow> split_bar k = [k]"
  by (induction k) auto

lemma split_bar_append: "BAR \<notin> set k \<Longrightarrow> split_bar (k @ BAR # rest) = k # split_bar rest"
  by (induction k) (auto split: list.splits)

lemma split_join_bar:
  "kws \<noteq> [] \<Longrightarrow> \<forall>k \<in> set kws. BAR \<notin> set k \<Longrightarrow> split_bar (join_bar kws) = kws"
  by (induction kws rule: join_bar.induct) (auto simp: split_bar_no_bar split_bar_append)

lemma set_join_bar: "set (join_bar kws) \<subseteq> insert BAR (\<Union>(set ` set kws))"
  by (induction kws rule: join_bar.induct) auto

lemma re_compile_join:
  assumes "kws \<noteq> []" "list_all literal kws"
  shows "re_compile pf (join_bar kws) = Some (re_search (char_eq pf) kws)"
proof -
  have nb: "\<forall>k \<in> set kws. BAR \<notin> set k"
    using assms(2) by (auto simp: literal_def list_all_iff)
  have "\<not> list_ex (\<lambda>c. c \<in> set METACHARS) (join_bar kws)"
  proof
    assume "list_ex (\<lambda>c. c \<in> set METACHARS) (join_bar kws)"
    then obtain c where c: "c \<in> set (join_bar kws)" "c \<in> set METACHARS"
      by (auto simp: list_ex_iff)
    with set_join_bar[of kws] have "c = BAR \<or> (\<exists>k \<in> set kws. c \<in> set k)" by auto
    then show False
    proof
      assume "c = BAR" with c(2) show False by (simp add: BAR_def METACHARS_def)
    next
      assume "\<exists>k \<in> set kws. c \<in> set k"
      with assms(2) c(2) show False by (auto simp: literal_def list_all_iff)
    qed
  qed
  with split_join_bar[OF assms(1) nb] show ?thesis by (simp add: re_compile_def)
qed

lemma re_compile_literal: "literal t \<Longrightarrow> re_compile pf t = Some (re_search (char_eq pf) [t])"
  by (auto simp: re_compile_def literal_def list_all_iff list_ex_iff split_bar_no_bar)

lemma table_ok_INDUSTRY_MAPPING: "table_ok INDUSTRY_MAPPING"
  by (simp add: table_ok_def INDUSTRY_MAPPING_def literal_def BAR_def METACHARS_def)

lemma match_here_iff:
  "match_here ceq t s \<longleftrightarrow> (\<exists>mid post. s = mid @ post \<and> list_all2 ceq t mid)"
proof (induction ceq t s rule: match_here.induct)
  case (1 ceq s)
  show ?case by simp
next
  case (2 ceq p ps)
  show ?case by (simp add: list_all2_Cons1)
next
  case (3 ceq p ps c cs)
  show ?case
  proof
    assume "match_here ceq (p # ps) (c # cs)"
    with 3 obtain mid post where "ceq p c" "cs = mid @ post" "list_all2 ceq ps mid" by auto
    then have "c # cs = (c # mid) @ post \<and> list_all2 ceq (p # ps) (c # mid)" by simp
    then show "\<exists>mid post. c # cs = mid @ post \<and> list_all2 ceq (p # ps) mid" by blast
  next
    assume "\<exists>mid post. c # cs = mid @ post \<and> list_all2 ceq (p # ps) mid"
    then obtain mid post where h: "c # cs = mid @ post" "list_all2 ceq (p # ps) mid" by blast
    from h(2) obtain m ms where m: "mid = m # ms" "ceq p m" "list_all2 ceq ps ms"
      by (auto simp: list_all2_Cons1)
    with h(1) have "m = c" "cs = ms @ post" by auto
    with m 3 show "match_here ceq (p # ps) (c # cs)" by auto
  qed
qed

lemma ci_substring_Nil: "ci_substring ceq t [] \<longleftrightarrow> match_here ceq t []"
  by (auto simp: ci_substring_def match_here_iff)

lemma ci_substring_Cons:
  "ci_substring ceq t (c # cs) \<longleftrightarrow> match_here ceq t (c # cs) \<or> ci_substring ceq t cs"
proof
  assume "ci_substring ceq t (c # cs)"
  then obtain pre mid post where h: "c # cs = pre @ mid @ post" "list_all2 ceq t mid"
    by (auto simp: ci_substring_def)
  show "match_here ceq t (c # cs) \<or> ci_substring ceq t cs"
  proof (cases pre)
    case Nil
    with h have "match_here ceq t (c # cs)" by (auto simp: match_here_iff)
    then show ?thesis ..
  next
    case (Cons a pre')
    with h have "cs = pre' @ mid @ post" by simp
    with h(2) have "ci_substring ceq t cs" by (auto simp: ci_substring_def)
    then show ?thesis ..
  qed
next
  assume "match_here ceq t (c # cs) \<or> ci_substring ceq t cs"
  then show "ci_substring ceq t (c # cs)"
  proof
    assume "match_here ceq t (c # cs)"
    then obtain mid post where "c # cs = [] @ mid @ post" "list_all2 ceq t mid"
      by (auto simp: match_here_iff)
    then show ?thesis unfolding ci_substring_def by blast
  next
    assume "ci_substring ceq t cs"
    then obtain pre mid post where "cs = pre @ mid @ post" "list_all2 ceq t mid"
      by (auto simp: ci_substring_def)
    then have "c # cs = (c # pre) @ mid @ post \<and> list_all2 ceq t mid" by simp
    then show ?thesis unfolding ci_substring_def by blast
  qed
qed

lemma re_search_iff: "re_search ceq alts s \<longleftrightarrow> (\<exists>a \<in> set alts. ci_substring ceq a s)"
  by (induction s) (auto simp: list_ex_iff ci_substring_Nil ci_substring_Cons)

lemma re_search_kw_match: "re_search ceq kws s = kw_match ceq kws s"
  by (simp add: re_search_iff kw_match_def)

lemma ci_substring_code: "ci_substring ceq t s = re_search ceq [t] s"
  by (simp add: re_search_iff)

section \<open>Lemmas: the classification loop\<close>

lemma str_contains_join:
  assumes "kws \<noteq> []" "list_all literal kws"
  shows "str_contains pf (join_bar kws) col = Inr (map (kw_match (char_eq pf) kws) col)"
  using re_compile_join[OF assms, of pf] by (simp add: str_contains_def re_search_kw_match)

lemma assign_loop_char:
  "table_ok tbl \<Longrightarrow>
   assign_loop pf tbl df =
     Inr (map (\<lambda>r. r\<lparr>industry := label_fold (char_eq pf) tbl (company_name r) (industry r)\<rparr>) df)"
proof (induction tbl arbitrary: df)
  case Nil
  show ?case by simp
next
  case (Cons entry rest)
  obtain ind kws where entry: "entry = (ind, kws)" by (cases entry)
  from Cons.prems entry have ok: "kws \<noteq> []" "list_all literal kws" and rest: "table_ok rest"
    by (auto simp: table_ok_def)
  let ?step = "\<lambda>r. if kw_match (char_eq pf) kws (company_name r) then r\<lparr>industry := ind\<rparr> else r"
  have hits: "str_contains pf (join_bar kws) (map company_name df)
                = Inr (map (kw_match (char_eq pf) kws) (map company_name df))"
    by (rule str_contains_join[OF ok])
  have upd: "map (\<lambda>(m, r). if m then r\<lparr>industry := ind\<rparr> else r)
               (zip (map (kw_match (char_eq pf) kws) (map company_name df)) df) = map ?step df"
    by (induction df) auto
  have "assign_loop pf (entry # rest) df = assign_loop pf rest (map ?step df)"
    by (simp only: entry assign_loop.simps hits sum.case upd)
  also have "\<dots> = Inr (map (\<lambda>r. r\<lparr>industry := label_fold (char_eq pf) rest (company_name r) (industry r)\<rparr>)
                      (map ?step df))"
    by (rule Cons.IH[OF rest])
  also have "\<dots> = Inr (map (\<lambda>r. r\<lparr>industry := label_fold (char_eq pf) (entry # rest) (company_name r) (industry r)\<rparr>) df)"
    by (simp add: entry)
  finally show ?case .
qed

lemma label_fold_last:
  "label_fold ceq tbl name l =
     (case filter (\<lambda>(ind, kws). kw_match ceq kws name) tbl of [] \<Rightarrow> l | m # ms \<Rightarrow> fst (last (m # ms)))"
  by (induction tbl arbitrary: l) (auto split: list.splits)

lemma label_fold_pos:
  "j < length tbl \<Longrightarrow> kw_match ceq (snd (tbl ! j)) name \<Longrightarrow>
   \<exists>k. j \<le> k \<and> k < length tbl \<and> label_fold ceq tbl name l = fst (tbl ! k) \<and>
       kw_match ceq (snd (tbl ! k)) name \<and>
       (\<forall>m. k < m \<and> m < length tbl \<longrightarrow> \<not> kw_match ceq (snd (tbl ! m)) name)"
proof (induction tbl arbitrary: j l)
  case Nil
  then show ?case by simp
next
  case (Cons entry rest)
  obtain ind kws where entry: "entry = (ind, kws)" by (cases entry)
  let ?l' = "if kw_match ceq kws name then ind else l"
  have fold: "label_fold ceq (entry # rest) name l = label_fold ceq rest name ?l'"
    by (simp add: entry)
  show ?case
  proof (cases "\<exists>i < length rest. kw_match ceq (snd (rest ! i)) name")
    case True
    then obtain i where i: "i < length rest" "kw_match ceq (snd (rest ! i)) name" by blast
    define j' where "j' = (if j = 0 then i else j - 1)"
    have j': "j' < length rest" "kw_match ceq (snd (rest ! j')) name" "j \<le> Suc j'"
      using i Cons.prems by (auto simp: j'_def nth_Cons split: nat.splits)
    from Cons.IH[OF j'(1,2), of ?l'] obtain k where
      k: "j' \<le> k" "k < length rest" "label_fold ceq rest name ?l' = fst (rest ! k)"
         "kw_match ceq (snd (rest ! k)) name"
         "\<forall>m. k < m \<and> m < length rest \<longrightarrow> \<not> kw_match ceq (snd (rest ! m)) name"
      by blast
    have "\<forall>m. Suc k < m \<and> m < length (entry # rest) \<longrightarrow> \<not> kw_match ceq (snd ((entry # rest) ! m)) name"
    proof (intro allI impI)
      fix m assume m: "Suc k < m \<and> m < length (entry # rest)"
      then obtain m' where m': "m = Suc m'" by (cases m) auto
      with m k(5) show "\<not> kw_match ceq (snd ((entry # rest) ! m)) name" by simp
    qed
    with k j'(3) fold have
      "j \<le> Suc k \<and> Suc k < length (entry # rest) \<and>
       label_fold ceq (entry # rest) name l = fst ((entry # rest) ! Suc k) \<and>
       kw_match ceq (snd ((entry # rest) ! Suc k)) name \<and>
       (\<forall>m. Suc k < m \<and> m < length (entry # rest) \<longrightarrow> \<not> kw_match ceq (snd ((entry # rest) ! m)) name)"
      by simp
    then show ?thesis by blast
  next
    case False
    then have none: "\<forall>i < length rest. \<not> kw_match ceq (snd (rest ! i)) name" by blast
    with Cons.prems have j0: "j = 0" by (cases j) auto
    with Cons.prems entry have hit: "kw_match ceq kws name" by simp
    have "filter (\<lambda>(ind, kws). kw_match ceq kws name) rest = []"
    proof -
      have "\<not> kw_match ceq (snd e) name" if "e \<in> set rest" for e
      proof -
        from that obtain i where "i < length rest" "rest ! i = e" by (auto simp: in_set_conv_nth)
        with none show ?thesis by auto
      qed
      then show ?thesis by (auto simp: filter_empty_conv)
    qed
    then have "label_fold ceq rest name ind = ind"
      by (simp add: label_fold_last)
    with fold hit have res: "label_fold ceq (entry # rest) name l = fst ((entry # rest) ! 0)"
      by (simp add: entry)
    have "\<forall>m. 0 < m \<and> m < length (entry # rest) \<longrightarrow> \<not> kw_match ceq (snd ((entry # rest) ! m)) name"
    proof (intro allI impI)
      fix m assume m: "0 < m \<and> m < length (entry # rest)"
      then obtain m' where "m = Suc m'" by (cases m) auto
      with m none show "\<not> kw_match ceq (snd ((entry # rest) ! m)) name" by simp
    qed
    with res hit j0 entry show ?thesis by (intro exI[of _ 0]) simp
  qed
qed

lemma distinct_industries: "distinct (map fst INDUSTRY_MAPPING)"
  by (simp add: INDUSTRY_MAPPING_def FINANCE_def REAL_ESTATE_def MANUFACTURING_def TRANSPORT_def
      ENERGY_def INFO_TECH_def HEALTHCARE_def CONSUMER_def EDUCATION_def MEDIA_def)

lemma label_fold_in: "label_fold ceq tbl name l \<in> insert l (fst ` set tbl)"
proof (induction tbl arbitrary: l)
  case Nil
  show ?case by simp
next
  case (Cons entry rest)
  obtain ind kws where entry: "entry = (ind, kws)" by (cases entry)
  from Cons.IH[of "if kw_match ceq kws name then ind else l"] show ?case
    by (auto simp: entry split: if_splits)
qed

section \<open>Lemmas: the loader\<close>

lemma label_of_matching:
  "label_of ceq name = (case matching ceq name of [] \<Rightarrow> OTHER | m # ms \<Rightarrow> fst (last (m # ms)))"
  by (simp add: label_of_def matching_def label_fold_last)

lemma index_column_Inr:
  "index_column nm sheet = Inr idx \<Longrightarrow>
   list_all2 (\<lambda>r x. \<exists>y. weighted_sum nm (freq r) TECH_WEIGHTS = Inr y \<and> x = dvalue y) sheet idx"
  by (induction sheet arbitrary: idx) (auto split: sum.splits)

lemma process_Inr:
  assumes "process pf sheet = Inr df"
  shows "\<exists>idx. index_column (compensated_sum pf) sheet = Inr idx \<and>
           df = map (\<lambda>(r, x). with_columns r x (label_of (char_eq pf) (company_name r))) (zip sheet idx)"
proof -
  from assms obtain idx where idx: "index_column (compensated_sum pf) sheet = Inr idx"
    and loop: "assign_loop pf INDUSTRY_MAPPING (map (\<lambda>(r, x). with_columns r x OTHER) (zip sheet idx)) = Inr df"
    by (auto simp: process_def split: sum.splits)
  from loop have "df = map (\<lambda>r. r\<lparr>industry := label_fold (char_eq pf) INDUSTRY_MAPPING (company_name r) (industry r)\<rparr>)
                         (map (\<lambda>(r, x). with_columns r x OTHER) (zip sheet idx))"
    by (simp add: assign_loop_char[OF table_ok_INDUSTRY_MAPPING])
  also have "\<dots> = map (\<lambda>(r, x). with_columns r x (label_of (char_eq pf) (company_name r))) (zip sheet idx)"
    by (auto simp: with_columns_def label_of_def)
  finally show ?thesis using idx by blast
qed

lemma loaded_row:
  assumes "load_and_calculate_index pf f = (df, msgs)" and "c \<in> set df"
  shows "(\<exists>y. weighted_sum (compensated_sum pf) (freq c) TECH_WEIGHTS = Inr y \<and>
              digitalization_index c = dvalue y) \<and>
         industry c = label_of (char_eq pf) (company_name c)"
proof -
  from assms obtain sheet where "process pf sheet = Inr df"
    by (auto simp: load_and_calculate_index_def split: excel_file.splits sum.splits)
  then obtain idx where idx: "index_column (compensated_sum pf) sheet = Inr idx"
    and df: "df = map (\<lambda>(r, x). with_columns r x (label_of (char_eq pf) (company_name r))) (zip sheet idx)"
    using process_Inr by blast
  from assms(2) df obtain r x where rx: "(r, x) \<in> set (zip sheet idx)"
    and c: "c = with_columns r x (label_of (char_eq pf) (company_name r))"
    by auto
  from index_column_Inr[OF idx] rx
  have "\<exists>y. weighted_sum (compensated_sum pf) (freq r) TECH_WEIGHTS = Inr y \<and> x = dvalue y"
    by (auto simp: list_all2_iff)
  with c show ?thesis by (simp add: with_columns_def)
qed

lemma weighted_sum_TECH_WEIGHTS:
  assumes "weighted_sum nm row TECH_WEIGHTS = Inr y"
  shows "\<exists>a b c d e.
           map_of row AI_TECH = Some (Num a) \<and> map_of row BLOCKCHAIN_TECH = Some (Num b) \<and>
           map_of row BIG_DATA_TECH = Some (Num c) \<and> map_of row CLOUD_TECH = Some (Num d) \<and>
           map_of row DIGITAL_APPLICATION = Some (Num e) \<and>
           y = py_sum nm
                 [fmul (float_of_int (sint a)) (float_literal 3 10),
                  fmul (float_of_int (sint b)) (float_literal 1 10),
                  fmul (float_of_int (sint c)) (float_literal 25 100),
                  fmul (float_of_int (sint d)) (float_literal 15 100),
                  fmul (float_of_int (sint e)) (float_literal 2 10)]"
  using assms
  by (auto simp: weighted_sum_def TECH_WEIGHTS_def row_get_def cell_times_def
      split: option.splits cell.splits sum.splits)

lemma float_7_3: "float_literal 73 10 = (8219069319951155, - 50)"
  by code_simp

lemma sum_7_3_plain:
  "py_sum False
     [fmul (float_of_int (sint (10 :: 64 word))) (float_literal 3 10),
      fmul (float_of_int (sint (5 :: 64 word))) (float_literal 1 10),
      fmul (float_of_int (sint (8 :: 64 word))) (float_literal 25 100),
      fmul (float_of_int (sint (4 :: 64 word))) (float_literal 15 100),
      fmul (float_of_int (sint (6 :: 64 word))) (float_literal 2 10)] = (8219069319951155, - 50)"
  by code_simp

lemma sum_7_3_compensated:
  "py_sum True
     [fmul (float_of_int (sint (10 :: 64 word))) (float_literal 3 10),
      fmul (float_of_int (sint (5 :: 64 word))) (float_literal 1 10),
      fmul (float_of_int (sint (8 :: 64 word))) (float_literal 25 100),
      fmul (float_of_int (sint (4 :: 64 word))) (float_literal 15 100),
      fmul (float_of_int (sint (6 :: 64 word))) (float_literal 2 10)] = (8219069319951155, - 50)"
  by code_simp

lemma sum_7_3:
  "py_sum nm
     [fmul (float_of_int (sint (10 :: 64 word))) (float_literal 3 10),
      fmul (float_of_int (sint (5 :: 64 word))) (float_literal 1 10),
      fmul (float_of_int (sint (8 :: 64 word))) (float_literal 25 100),
      fmul (float_of_int (sint (4 :: 64 word))) (float_literal 15 100),
      fmul (float_of_int (sint (6 :: 64 word))) (float_literal 2 10)] = float_literal 73 10"
  by (cases nm) (simp_all only: sum_7_3_plain sum_7_3_compensated float_7_3)

text \<open>
  Double arithmetic is not the arithmetic of the decimals: three times the weight 0.3 is
  the double below 0.9, under either summation.
\<close>

lemma sum_0_9:
  "dvalue (py_sum nm
     [fmul (float_of_int (sint (3 :: 64 word))) (float_literal 3 10),
      fmul (float_of_int (sint (0 :: 64 word))) (float_literal 1 10),
      fmul (float_of_int (sint (0 :: 64 word))) (float_literal 25 100),
      fmul (float_of_int (sint (0 :: 64 word))) (float_literal 15 100),
      fmul (float_of_int (sint (0 :: 64 word))) (float_literal 2 10)])
   = 2026619832316723 / 2251799813685248"
  by (cases nm) (simp_all only:, code_simp+)

section \<open>Lemmas: filtering and sorting\<close>

lemma select_rows_or_na:
  "select_rows (map2 or_na (map (\<lambda>r. Some (g r)) df) (map h df)) df
     = filter (\<lambda>r. g r \<or> h r) df"
  by (induction df) (auto simp: select_rows_def or_na_def)

text \<open>
  When the stock-code column was read as numbers, every non-empty search term ends in the
  AttributeError of the \<open>.str\<close> accessor.
\<close>

lemma search_filter_numeric_codes:
  "search_term \<noteq> [] \<Longrightarrow> search_filter pf True search_term df = Inl AttributeError"
  by (simp add: search_filter_def str_accessor_def)

text \<open>
  The Top-10 table is in descending order of the index, has ten rows or all rows of the
  filtered view when these are fewer, and shows rows of the filtered view, in whichever
  order the sorting algorithm leaves the rows of equal index.
\<close>

lemma sorted_desc_sort_values: "sorted_desc (sort_values_desc pf df)"
proof -
  have "sorted (map (\<lambda>(k, r). - digitalization_index r) xs) \<Longrightarrow> sorted_desc (map snd xs)"
    for xs :: "(nat \<times> company) list"
    by (induction xs) (auto simp: sorted_desc_def)
  then show ?thesis
    unfolding sort_values_desc_def Let_def by this simp
qed

lemma mset_sort_values: "mset (sort_values_desc pf df) = mset df"
proof -
  have "mset (sort_values_desc pf df) = mset (map snd (zip [0 ..< length df] df))"
    unfolding sort_values_desc_def Let_def by (simp only: mset_map mset_sort)
  also have "\<dots> = mset df" by (simp add: map_snd_zip)
  finally show ?thesis .
qed

lemma top10_descending:
  "sorted_desc (top10 pf df) \<and> length (top10 pf df) = min 10 (length df) \<and>
   mset (top10 pf df) \<subseteq># mset df"
proof -
  have len: "length (sort_values_desc pf df) = length df"
    using mset_sort_values by (rule mset_eq_length)
  have "mset df = mset (take 10 (sort_values_desc pf df)) + mset (drop 10 (sort_values_desc pf df))"
    by (metis append_take_drop_id mset_append mset_sort_values)
  then have "mset (top10 pf df) \<subseteq># mset df" by (simp add: top10_def)
  moreover have "sorted_desc (top10 pf df)"
    using sorted_desc_sort_values[of pf df] by (simp add: top10_def sorted_desc_def)
  moreover have "length (top10 pf df) = min 10 (length df)"
    by (simp add: top10_def len min.commute)
  ultimately show ?thesis by blast
qed

section \<open>Evaluation of the sample data\<close>

lemmas table_defs = INDUSTRY_MAPPING_def FINANCE_def REAL_ESTATE_def MANUFACTURING_def
  TRANSPORT_def ENERGY_def INFO_TECH_def HEALTHCARE_def CONSUMER_def EDUCATION_def MEDIA_def
  OTHER_def

lemmas tech_defs = TECH_WEIGHTS_def AI_TECH_def BLOCKCHAIN_TECH_def BIG_DATA_TECH_def
  CLOUD_TECH_def DIGITAL_APPLICATION_def

lemmas regex_defs = str_contains_def str_contains_cells_def re_compile_def METACHARS_def BAR_def
  sample_platform_def ascii_ceq_def ascii_lower_def

lemma weighted_sum_sample:
  "weighted_sum nm (sample_freq a b c d e) TECH_WEIGHTS =
     Inr (py_sum nm
            [fmul (float_of_int (sint a)) (float_literal 3 10),
             fmul (float_of_int (sint b)) (float_literal 1 10),
             fmul (float_of_int (sint c)) (float_literal 25 100),
             fmul (float_of_int (sint d)) (float_literal 15 100),
             fmul (float_of_int (sint e)) (float_literal 2 10)])"
  by (simp add: weighted_sum_def sample_freq_def row_get_def cell_times_def tech_defs)

lemma sum_0_4:
  "py_sum False
     [fmul (float_of_int (sint (1 :: 64 word))) (float_literal 3 10),
      fmul (float_of_int (sint (1 :: 64 word))) (float_literal 1 10),
      fmul (float_of_int (sint (0 :: 64 word))) (float_literal 25 100),
      fmul (float_of_int (sint (0 :: 64 word))) (float_literal 15 100),
      fmul (float_of_int (sint (0 :: 64 word))) (float_literal 2 10)] = float_literal 4 10"
  by code_simp

lemma sum_0_8:
  "py_sum False
     [fmul (float_of_int (sint (1 :: 64 word))) (float_literal 3 10),
      fmul (float_of_int (sint (0 :: 64 word))) (float_literal 1 10),
      fmul (float_of_int (sint (2 :: 64 word))) (float_literal 25 100),
      fmul (float_of_int (sint (0 :: 64 word))) (float_literal 15 100),
      fmul (float_of_int (sint (0 :: 64 word))) (float_literal 2 10)] = float_literal 8 10"
  by code_simp

lemma sum_1_0:
  "py_sum False
     [fmul (float_of_int (sint (0 :: 64 word))) (float_literal 3 10),
      fmul (float_of_int (sint (0 :: 64 word))) (float_literal 1 10),
      fmul (float_of_int (sint (4 :: 64 word))) (float_literal 25 100),
      fmul (float_of_int (sint (0 :: 64 word))) (float_literal 15 100),
      fmul (float_of_int (sint (0 :: 64 word))) (float_literal 2 10)] = float_of_int 1"
  by code_simp

lemma ws_bank: "weighted_sum False (sample_freq 10 5 8 4 6) TECH_WEIGHTS = Inr (float_literal 73 10)"
  by (simp only: weighted_sum_sample sum_7_3)

lemma ws_bank_b: "weighted_sum False (sample_freq 1 1 0 0 0) TECH_WEIGHTS = Inr (float_literal 4 10)"
  by (simp only: weighted_sum_sample sum_0_4)

lemma ws_bank_software: "weighted_sum False (sample_freq 1 0 2 0 0) TECH_WEIGHTS = Inr (float_literal 8 10)"
  by (simp only: weighted_sum_sample sum_0_8)

lemma ws_acme: "weighted_sum False (sample_freq 0 0 4 0 0) TECH_WEIGHTS = Inr (float_of_int 1)"
  by (simp only: weighted_sum_sample sum_1_0)

lemma dvalue_one: "dvalue (float_of_int 1) = 1"
  by code_simp

lemmas loader_defs = load_and_calculate_index_def process_def with_columns_def

lemma load_bank:
  "load_and_calculate_index sample_platform (Present (Inr [bank_row])) = ([bank_company], [Success 1])"
  by (simp add: loader_defs bank_row_def bank_company_def ws_bank table_defs regex_defs)

lemma load_bank_b:
  "load_and_calculate_index sample_platform (Present (Inr [bank_row_b]))
     = ([bank_company_b], [Success 1])"
  by (simp add: loader_defs bank_row_b_def bank_company_b_def ws_bank_b table_defs regex_defs)

lemma load_bank_software:
  "load_and_calculate_index sample_platform (Present (Inr [bank_software_row]))
     = ([bank_software_company], [Success 1])"
  by (simp add: loader_defs bank_software_row_def bank_software_company_def ws_bank_software
      table_defs regex_defs)

lemma load_acme:
  "load_and_calculate_index sample_platform (Present (Inr [acme_row])) = ([acme_company], [Success 1])"
  by (simp add: loader_defs acme_row_def acme_company_def ws_acme dvalue_one table_defs regex_defs)

lemma load_bank_acme:
  "load_and_calculate_index sample_platform (Present (Inr [bank_row, acme_row]))
     = ([bank_company, acme_company], [Success 2])"
  by (simp add: loader_defs bank_row_def bank_company_def acme_row_def acme_company_def ws_bank
      ws_acme dvalue_one table_defs regex_defs)

lemma process_broken: "process sample_platform [broken_row] = Inl (KeyError CLOUD_TECH)"
  by (simp add: process_def broken_row_def weighted_sum_def row_get_def cell_times_def tech_defs
      sample_platform_def)

lemma char_eq_sample: "char_eq sample_platform = ascii_ceq"
  by (simp add: sample_platform_def)

lemma kw_match_bank_software:
  "kw_match (char_eq sample_platform) (snd (INDUSTRY_MAPPING ! 0)) (company_name bank_software_company)"
  "kw_match (char_eq sample_platform) (snd (INDUSTRY_MAPPING ! 5)) (company_name bank_software_company)"
  by (simp_all add: re_search_kw_match [symmetric] bank_software_company_def bank_software_row_def
      with_columns_def table_defs regex_defs)

lemma matching_bank_software:
  "map fst (matching (char_eq sample_platform) (company_name bank_software_company))
     = [FINANCE, INFO_TECH]"
  by (simp add: matching_def re_search_kw_match [symmetric] bank_software_company_def
      bank_software_row_def with_columns_def table_defs regex_defs)

lemma matching_acme: "matching (char_eq sample_platform) (company_name acme_company) = []"
  by (simp add: matching_def re_search_kw_match [symmetric] acme_company_def acme_row_def
      with_columns_def table_defs regex_defs)

lemma index_values:
  "dvalue (float_literal 73 10) = 8219069319951155 / 1125899906842624"
  "dvalue (float_literal 4 10) = 3602879701896397 / 9007199254740992"
  "dvalue (float_literal 8 10) = 3602879701896397 / 4503599627370496"
  by code_simp+

lemma index_bounds:
  "(1 :: real) < dvalue (float_literal 73 10)"
  "(0 :: real) \<le> dvalue (float_literal 73 10)"
  "dvalue (float_literal 73 10) \<le> (10 :: real)"
  by (simp_all add: index_values)

lemmas filter_defs = apply_filters_def industry_filter_def range_filter_def search_filter_def
  select_rows_def or_na_def str_accessor_def is_text_def cell_text_def

lemmas main_defs = main_def unique_def multiselect_def slider_def top10_def sort_values_desc_def

lemma page_bank_acme:
  "main sample_platform (Present (Inr [bank_row, acme_row])) None None []
     = ([Success 2], Inr (Page [bank_company, acme_company] [bank_company, acme_company]))"
  by (simp only: main_def load_bank_acme)
    (simp add: main_defs filter_defs bank_company_def acme_company_def bank_row_def acme_row_def
      with_columns_def FINANCE_def OTHER_def index_values sample_platform_def Let_def)

lemma page_empty_selection:
  "main sample_platform (Present (Inr [bank_row, acme_row])) (Some []) None []
     = ([Success 2], Inr (Page [bank_company, acme_company] [bank_company, acme_company]))"
  by (simp only: main_def load_bank_acme)
    (simp add: main_defs filter_defs bank_company_def acme_company_def bank_row_def acme_row_def
      with_columns_def FINANCE_def OTHER_def index_values sample_platform_def Let_def)

lemma page_bar_term:
  "main sample_platform (Present (Inr [bank_row, acme_row])) None None [49, 124, 50]
     = ([Success 2], Inr (Page [bank_company] [bank_company]))"
  by (simp only: main_def load_bank_acme)
    (simp add: main_defs filter_defs bank_company_def acme_company_def bank_row_def acme_row_def
      with_columns_def FINANCE_def OTHER_def index_values regex_defs Let_def)

lemma load_numeric_codes:
  "load_and_calculate_index sample_platform
     (Present (Inr [bank_row\<lparr>stock_code := Num 1\<rparr>, acme_row\<lparr>stock_code := Num 300750\<rparr>]))
   = ([bank_company\<lparr>stock_code := Num 1\<rparr>, acme_company\<lparr>stock_code := Num 300750\<rparr>],
      [Success 2])"
  by (simp add: loader_defs bank_row_def bank_company_def acme_row_def acme_company_def ws_bank
      ws_acme dvalue_one table_defs regex_defs)

lemma page_numeric_codes:
  "main sample_platform
     (Present (Inr [bank_row\<lparr>stock_code := Num 1\<rparr>, acme_row\<lparr>stock_code := Num 300750\<rparr>]))
     None None [49]
   = ([Success 2], Inl AttributeError)"
  by (simp only: main_def load_numeric_codes)
    (simp add: main_defs filter_defs bank_company_def acme_company_def bank_row_def acme_row_def
      with_columns_def FINANCE_def OTHER_def index_values regex_defs Let_def)

lemma page_equal_indices:
  "main sample_platform (Present (Inr [bank_row])) None None [] = ([Success 1], Inl StreamlitAPIException)"
  by (simp only: main_def load_bank) (simp add: main_defs Let_def)

section \<open>The claims\<close>

subsection \<open>C1: the index is the weighted sum\<close>

text \<open>
  C1. For every row of the loaded dataset, the derived index equals the unnormalized
  weighted sum of the five technology-frequency columns with the weights 0.30 (AI), 0.10
  (blockchain), 0.25 (big data), 0.15 (cloud) and 0.20 (digital application); in
  particular the frequencies (10, 5, 8, 4, 6) give the index 7.3. The index is a float:
  the weights are the doubles of the five literals, each product and the sum are those
  of double arithmetic in the order of the table, under either summation of the
  interpreter, and 7.3 is the double of that literal.
\<close>

theorem digitalization_index_weighted_sum:
  assumes "load_and_calculate_index pf f = (df, msgs)" and "r \<in> set df"
  shows "\<exists>a b c d e.
           map_of (freq r) AI_TECH = Some (Num a) \<and>
           map_of (freq r) BLOCKCHAIN_TECH = Some (Num b) \<and>
           map_of (freq r) BIG_DATA_TECH = Some (Num c) \<and>
           map_of (freq r) CLOUD_TECH = Some (Num d) \<and>
           map_of (freq r) DIGITAL_APPLICATION = Some (Num e) \<and>
           digitalization_index r =
             dvalue (py_sum (compensated_sum pf)
                       [fmul (float_of_int (sint a)) (float_literal 3 10),
                        fmul (float_of_int (sint b)) (float_literal 1 10),
                        fmul (float_of_int (sint c)) (float_literal 25 100),
                        fmul (float_of_int (sint d)) (float_literal 15 100),
                        fmul (float_of_int (sint e)) (float_literal 2 10)]) \<and>
           ((a, b, c, d, e) = (10, 5, 8, 4, 6) \<longrightarrow>
              digitalization_index r = dvalue (float_literal 73 10))"
proof -
  from loaded_row[OF assms] obtain y where
    y: "weighted_sum (compensated_sum pf) (freq r) TECH_WEIGHTS = Inr y"
    and idx: "digitalization_index r = dvalue y"
    by blast
  from weighted_sum_TECH_WEIGHTS[OF y] obtain a b c d e where
    h: "map_of (freq r) AI_TECH = Some (Num a)" "map_of (freq r) BLOCKCHAIN_TECH = Some (Num b)"
       "map_of (freq r) BIG_DATA_TECH = Some (Num c)" "map_of (freq r) CLOUD_TECH = Some (Num d)"
       "map_of (freq r) DIGITAL_APPLICATION = Some (Num e)"
    and s: "y = py_sum (compensated_sum pf)
                  [fmul (float_of_int (sint a)) (float_literal 3 10),
                   fmul (float_of_int (sint b)) (float_literal 1 10),
                   fmul (float_of_int (sint c)) (float_literal 25 100),
                   fmul (float_of_int (sint d)) (float_literal 15 100),
                   fmul (float_of_int (sint e)) (float_literal 2 10)]"
    by blast
  have "(a, b, c, d, e) = (10, 5, 8, 4, 6) \<longrightarrow> digitalization_index r = dvalue (float_literal 73 10)"
    using idx s sum_7_3[of "compensated_sum pf"] by auto
  with h idx s show ?thesis by blast
qed

theorem digitalization_index_weighted_sum_witness:
  "load_and_calculate_index sample_platform (Present (Inr [bank_row])) = ([bank_company], [Success 1]) \<and>
   bank_company \<in> set [bank_company] \<and>
   map_of (freq bank_company) AI_TECH = Some (Num 10) \<and>
   map_of (freq bank_company) BLOCKCHAIN_TECH = Some (Num 5) \<and>
   map_of (freq bank_company) BIG_DATA_TECH = Some (Num 8) \<and>
   map_of (freq bank_company) CLOUD_TECH = Some (Num 4) \<and>
   map_of (freq bank_company) DIGITAL_APPLICATION = Some (Num 6) \<and>
   digitalization_index bank_company =
     dvalue (py_sum (compensated_sum sample_platform)
               [fmul (float_of_int (sint (10 :: 64 word))) (float_literal 3 10),
                fmul (float_of_int (sint (5 :: 64 word))) (float_literal 1 10),
                fmul (float_of_int (sint (8 :: 64 word))) (float_literal 25 100),
                fmul (float_of_int (sint (4 :: 64 word))) (float_literal 15 100),
                fmul (float_of_int (sint (6 :: 64 word))) (float_literal 2 10)]) \<and>
   digitalization_index bank_company = dvalue (float_literal 73 10) \<and>
   digitalization_index bank_company = 8219069319951155 / 1125899906842624"
proof -
  have h: "bank_company \<in> set [bank_company]" by simp
  have cells:
    "map_of (freq bank_company) AI_TECH = Some (Num 10)"
    "map_of (freq bank_company) BLOCKCHAIN_TECH = Some (Num 5)"
    "map_of (freq bank_company) BIG_DATA_TECH = Some (Num 8)"
    "map_of (freq bank_company) CLOUD_TECH = Some (Num 4)"
    "map_of (freq bank_company) DIGITAL_APPLICATION = Some (Num 6)"
    by (simp_all add: bank_company_def bank_row_def with_columns_def sample_freq_def tech_defs)
  from digitalization_index_weighted_sum [OF load_bank h] cells
  have "digitalization_index bank_company =
          dvalue (py_sum (compensated_sum sample_platform)
               [fmul (float_of_int (sint (10 :: 64 word))) (float_literal 3 10),
                fmul (float_of_int (sint (5 :: 64 word))) (float_literal 1 10),
                fmul (float_of_int (sint (8 :: 64 word))) (float_literal 25 100),
                fmul (float_of_int (sint (4 :: 64 word))) (float_literal 15 100),
                fmul (float_of_int (sint (6 :: 64 word))) (float_literal 2 10)])"
    and "digitalization_index bank_company = dvalue (float_literal 73 10)"
    by auto
  with load_bank h cells index_values(1) show ?thesis by simp
qed

subsection \<open>C2: an empty industry selection\<close>

text \<open>
  C2 claims that an empty set of selected industries gives an empty filtered view. The
  program guards the industry filter with \<open>if selected_industries\<close>: with an empty
  selection the filter is skipped, and the two rows of the sheet stay in the view and
  on the page.
\<close>

theorem empty_selection_counterexample:
  "apply_filters sample_platform False [] (1, dvalue (float_literal 73 10)) []
     [bank_company, acme_company] = Inr [bank_company, acme_company] \<and>
   apply_filters sample_platform False [] (1, dvalue (float_literal 73 10)) []
     [bank_company, acme_company] \<noteq> Inr [] \<and>
   main sample_platform (Present (Inr [bank_row, acme_row])) (Some []) None []
     = ([Success 2], Inr (Page [bank_company, acme_company] [bank_company, acme_company]))"
  using page_empty_selection
  by (simp add: apply_filters_def industry_filter_def range_filter_def search_filter_def
      bank_company_def acme_company_def with_columns_def index_values)

text \<open>
  C2, amended. When the set of selected industries is empty, no industry filter is
  applied: every row passes the industry stage, and the filtered view is what the range
  filter and the text filter leave of the whole dataset.
\<close>

theorem empty_selection_skips_industry_filter:
  "industry_filter [] df = df \<and>
   apply_filters pf numeric_codes [] index_range search_term df =
     search_filter pf numeric_codes search_term (range_filter index_range df)"
  by (simp add: industry_filter_def apply_filters_def)

theorem empty_selection_skips_industry_filter_witness:
  "industry_filter [] [bank_company, acme_company] = [bank_company, acme_company] \<and>
   apply_filters sample_platform False [] (0, 10) [] [bank_company, acme_company] =
     search_filter sample_platform False [] (range_filter (0, 10) [bank_company, acme_company])"
  using empty_selection_skips_industry_filter
    [of "[bank_company, acme_company]" sample_platform False "(0, 10)" "[]"]
  by simp

subsection \<open>C3: the last matching industry wins\<close>

text \<open>
  C3. For every row whose company name matches keywords of two different industries of
  the table, the classifier ends the row with the label of the matching industry that
  comes last in the table order.
\<close>

theorem last_match_wins:
  assumes "load_and_calculate_index pf f = (df, msgs)" and "r \<in> set df"
    and "(a, ka) \<in> set INDUSTRY_MAPPING" and "(b, kb) \<in> set INDUSTRY_MAPPING" and "a \<noteq> b"
    and "kw_match (char_eq pf) ka (company_name r)" and "kw_match (char_eq pf) kb (company_name r)"
  shows "industry r = fst (last (matching (char_eq pf) (company_name r)))"
proof -
  from assms(3,6) have "(a, ka) \<in> set (matching (char_eq pf) (company_name r))"
    by (simp add: matching_def)
  then obtain m ms where "matching (char_eq pf) (company_name r) = m # ms"
    by (cases "matching (char_eq pf) (company_name r)") auto
  with loaded_row[OF assms(1,2)] show ?thesis
    by (simp add: label_of_matching)
qed

theorem last_match_wins_witness:
  "load_and_calculate_index sample_platform (Present (Inr [bank_software_row]))
     = ([bank_software_company], [Success 1]) \<and>
   bank_software_company \<in> set [bank_software_company] \<and>
   (FINANCE, snd (INDUSTRY_MAPPING ! 0)) \<in> set INDUSTRY_MAPPING \<and>
   (INFO_TECH, snd (INDUSTRY_MAPPING ! 5)) \<in> set INDUSTRY_MAPPING \<and>
   FINANCE \<noteq> INFO_TECH \<and>
   kw_match (char_eq sample_platform) (snd (INDUSTRY_MAPPING ! 0)) (company_name bank_software_company) \<and>
   kw_match (char_eq sample_platform) (snd (INDUSTRY_MAPPING ! 5)) (company_name bank_software_company) \<and>
   industry bank_software_company
     = fst (last (matching (char_eq sample_platform) (company_name bank_software_company))) \<and>
   industry bank_software_company = INFO_TECH"
proof -
  have h2: "bank_software_company \<in> set [bank_software_company]" by simp
  have h3: "(FINANCE, snd (INDUSTRY_MAPPING ! 0)) \<in> set INDUSTRY_MAPPING"
    by (simp add: INDUSTRY_MAPPING_def)
  have h4: "(INFO_TECH, snd (INDUSTRY_MAPPING ! 5)) \<in> set INDUSTRY_MAPPING"
    by (simp add: INDUSTRY_MAPPING_def)
  have h5: "FINANCE \<noteq> INFO_TECH" by (simp add: FINANCE_def INFO_TECH_def)
  have lab: "industry bank_software_company = INFO_TECH"
    by (simp add: bank_software_company_def with_columns_def)
  from last_match_wins [OF load_bank_software h2 h3 h4 h5 kw_match_bank_software]
    load_bank_software h2 h3 h4 h5 kw_match_bank_software lab
  show ?thesis by simp
qed

subsection \<open>C4: the first matching industry does not win\<close>

text \<open>
  C4 claims that the first industry of the table among the matches gives the label. The
  loop overwrites: the name with a finance keyword and an information-technology keyword
  is labelled information technology, though finance is the first match.
\<close>

theorem first_match_wins_counterexample:
  "load_and_calculate_index sample_platform (Present (Inr [bank_software_row]))
     = ([bank_software_company], [Success 1]) \<and>
   fst (hd (matching (char_eq sample_platform) (company_name bank_software_company))) = FINANCE \<and>
   industry bank_software_company = INFO_TECH \<and>
   industry bank_software_company
     \<noteq> fst (hd (matching (char_eq sample_platform) (company_name bank_software_company)))"
proof -
  have "matching (char_eq sample_platform) (company_name bank_software_company) \<noteq> []"
    using matching_bank_software by auto
  then have "fst (hd (matching (char_eq sample_platform) (company_name bank_software_company))) = FINANCE"
    using matching_bank_software by (simp add: hd_map [symmetric])
  moreover have "industry bank_software_company = INFO_TECH"
    by (simp add: bank_software_company_def with_columns_def)
  moreover have "INFO_TECH \<noteq> FINANCE" by (simp add: FINANCE_def INFO_TECH_def)
  ultimately show ?thesis using load_bank_software by simp
qed

text \<open>
  C4, amended. For every row whose company name matches keywords of two different
  industries, the earlier of the two in the table order never gives the label: the label
  is that of a matching industry at or after the later one, after which no industry of
  the table matches.
\<close>

theorem earlier_match_overwritten:
  assumes "load_and_calculate_index pf f = (df, msgs)" and "r \<in> set df"
    and "i < j" and "j < length INDUSTRY_MAPPING"
    and "kw_match (char_eq pf) (snd (INDUSTRY_MAPPING ! i)) (company_name r)"
    and "kw_match (char_eq pf) (snd (INDUSTRY_MAPPING ! j)) (company_name r)"
  shows "industry r \<noteq> fst (INDUSTRY_MAPPING ! i) \<and>
         (\<exists>k. j \<le> k \<and> k < length INDUSTRY_MAPPING \<and> industry r = fst (INDUSTRY_MAPPING ! k) \<and>
              kw_match (char_eq pf) (snd (INDUSTRY_MAPPING ! k)) (company_name r) \<and>
              (\<forall>m. k < m \<and> m < length INDUSTRY_MAPPING \<longrightarrow>
                   \<not> kw_match (char_eq pf) (snd (INDUSTRY_MAPPING ! m)) (company_name r)))"
proof -
  from loaded_row[OF assms(1,2)] have lab: "industry r = label_of (char_eq pf) (company_name r)"
    by simp
  from label_fold_pos[OF assms(4,6), of OTHER] lab obtain k where
    k: "j \<le> k" "k < length INDUSTRY_MAPPING" "industry r = fst (INDUSTRY_MAPPING ! k)"
       "kw_match (char_eq pf) (snd (INDUSTRY_MAPPING ! k)) (company_name r)"
       "\<forall>m. k < m \<and> m < length INDUSTRY_MAPPING \<longrightarrow>
            \<not> kw_match (char_eq pf) (snd (INDUSTRY_MAPPING ! m)) (company_name r)"
    unfolding label_of_def by auto
  from assms(3) k(1,2) have ik: "i < length INDUSTRY_MAPPING" "i \<noteq> k" by auto
  with k(2) distinct_industries have "map fst INDUSTRY_MAPPING ! i \<noteq> map fst INDUSTRY_MAPPING ! k"
    by (simp add: nth_eq_iff_index_eq del: nth_map)
  with ik(1) k(2,3) have "industry r \<noteq> fst (INDUSTRY_MAPPING ! i)" by simp
  with k show ?thesis by blast
qed

theorem earlier_match_overwritten_witness:
  "load_and_calculate_index sample_platform (Present (Inr [bank_software_row]))
     = ([bank_software_company], [Success 1]) \<and>
   bank_software_company \<in> set [bank_software_company] \<and>
   (0::nat) < 5 \<and> 5 < length INDUSTRY_MAPPING \<and>
   kw_match (char_eq sample_platform) (snd (INDUSTRY_MAPPING ! 0)) (company_name bank_software_company) \<and>
   kw_match (char_eq sample_platform) (snd (INDUSTRY_MAPPING ! 5)) (company_name bank_software_company) \<and>
   industry bank_software_company \<noteq> fst (INDUSTRY_MAPPING ! 0) \<and>
   (\<exists>k. 5 \<le> k \<and> k < length INDUSTRY_MAPPING \<and>
        industry bank_software_company = fst (INDUSTRY_MAPPING ! k) \<and>
        kw_match (char_eq sample_platform) (snd (INDUSTRY_MAPPING ! k))
          (company_name bank_software_company) \<and>
        (\<forall>m. k < m \<and> m < length INDUSTRY_MAPPING \<longrightarrow>
             \<not> kw_match (char_eq sample_platform) (snd (INDUSTRY_MAPPING ! m))
                 (company_name bank_software_company)))"
proof -
  have h2: "bank_software_company \<in> set [bank_software_company]" by simp
  have h3: "(0::nat) < 5" by simp
  have h4: "5 < length INDUSTRY_MAPPING" by (simp add: INDUSTRY_MAPPING_def)
  from earlier_match_overwritten [OF load_bank_software h2 h3 h4 kw_match_bank_software]
    load_bank_software h2 h3 h4 kw_match_bank_software
  show ?thesis by simp
qed

subsection \<open>C5: a failed load\<close>

text \<open>
  C5. If the file does not exist, or it exists and reading or processing it fails (a
  wrong format, a missing column), the loader returns an empty dataset with one error
  message that names the cause; the loader itself returns in every case, and when the
  dataset is empty \<open>main\<close> shows the warning and stops before filtering and presentation.
\<close>

theorem load_failure_handled:
  "(f = Absent \<or> (\<exists>e. f = Present (Inl e)) \<or>
    (\<exists>sheet e. f = Present (Inr sheet) \<and> process pf sheet = Inl e) \<longrightarrow>
      (\<exists>m. load_and_calculate_index pf f = ([], [m]) \<and>
           (f = Absent \<longrightarrow> m = FileMissingError) \<and>
           (\<forall>e. f = Present (Inl e) \<longrightarrow> m = ProcessingError e) \<and>
           (\<forall>sheet e. f = Present (Inr sheet) \<and> process pf sheet = Inl e \<longrightarrow>
              m = ProcessingError e))) \<and>
   (fst (load_and_calculate_index pf f) = [] \<longrightarrow>
      main pf f industry_choice range_choice search_term =
        (snd (load_and_calculate_index pf f) @ [LoadWarning], Inr Halted))"
  by (auto simp: load_and_calculate_index_def main_def split: prod.splits)

theorem load_failure_handled_witness:
  "process sample_platform [broken_row] = Inl (KeyError CLOUD_TECH) \<and>
   load_and_calculate_index sample_platform (Present (Inr [broken_row]))
     = ([], [ProcessingError (KeyError CLOUD_TECH)]) \<and>
   load_and_calculate_index sample_platform Absent = ([], [FileMissingError]) \<and>
   main sample_platform (Present (Inr [broken_row])) None None []
     = ([ProcessingError (KeyError CLOUD_TECH), LoadWarning], Inr Halted) \<and>
   main sample_platform Absent None None []
     = ([FileMissingError, LoadWarning], Inr Halted)"
proof -
  have l1: "load_and_calculate_index sample_platform (Present (Inr [broken_row]))
              = ([], [ProcessingError (KeyError CLOUD_TECH)])"
    by (simp add: load_and_calculate_index_def process_broken)
  have l2: "load_and_calculate_index sample_platform Absent = ([], [FileMissingError])"
    by (simp add: load_and_calculate_index_def)
  from load_failure_handled [of "Present (Inr [broken_row])" sample_platform None None "[]"]
    load_failure_handled [of Absent sample_platform None None "[]"]
    process_broken l1 l2
  show ?thesis by simp
qed

subsection \<open>C6: the range filter is inclusive\<close>

text \<open>
  C6. The range filter on the index is inclusive at both bounds: a row whose index equals
  the selected minimum or the selected maximum is kept by the filter (the two ends of
  the slider satisfy minimum \<open>\<le>\<close> maximum).
\<close>

theorem range_filter_inclusive:
  assumes "r \<in> set df" and "fst index_range \<le> snd index_range"
    and "digitalization_index r = fst index_range \<or> digitalization_index r = snd index_range"
  shows "r \<in> set (range_filter index_range df)"
  using assms by (auto simp: range_filter_def)

theorem range_filter_inclusive_witness:
  "bank_company \<in> set [acme_company, bank_company] \<and>
   fst (1 :: real, dvalue (float_literal 73 10)) \<le> snd (1 :: real, dvalue (float_literal 73 10)) \<and>
   (digitalization_index bank_company = fst (1 :: real, dvalue (float_literal 73 10)) \<or>
    digitalization_index bank_company = snd (1 :: real, dvalue (float_literal 73 10))) \<and>
   bank_company \<in> set (range_filter (1, dvalue (float_literal 73 10)) [acme_company, bank_company]) \<and>
   acme_company \<in> set (range_filter (1, dvalue (float_literal 73 10)) [acme_company, bank_company])"
proof -
  have h1: "bank_company \<in> set [acme_company, bank_company]" by simp
  have h1': "acme_company \<in> set [acme_company, bank_company]" by simp
  have h2: "fst (1 :: real, dvalue (float_literal 73 10)) \<le> snd (1 :: real, dvalue (float_literal 73 10))"
    using index_bounds(1) by simp
  have h3: "digitalization_index bank_company = fst (1 :: real, dvalue (float_literal 73 10)) \<or>
            digitalization_index bank_company = snd (1 :: real, dvalue (float_literal 73 10))"
    by (simp add: bank_company_def with_columns_def)
  have h3': "digitalization_index acme_company = fst (1 :: real, dvalue (float_literal 73 10)) \<or>
             digitalization_index acme_company = snd (1 :: real, dvalue (float_literal 73 10))"
    by (simp add: acme_company_def with_columns_def)
  from range_filter_inclusive [OF h1 h2 h3] range_filter_inclusive [OF h1' h2 h3'] h1 h2 h3
  show ?thesis by blast
qed

subsection \<open>C7: the text filter\<close>

text \<open>
  C7 claims that every non-empty search term keeps exactly the rows where the term occurs
  as a substring, case ignored, of the stock code or of the company name. The program
  hands the term to \<open>str.contains\<close> as a regular expression: on the sheet with the stock
  codes SZ000001 and SZ300750, both texts, the term \<open>1|2\<close> keeps the first row, whose
  stock code holds \<open>1\<close>, though \<open>1|2\<close> occurs in neither of its fields; the page shows
  that row in both tables.
\<close>

theorem search_term_regex_counterexample:
  "main sample_platform (Present (Inr [bank_row, acme_row])) None None [49, 124, 50]
     = ([Success 2], Inr (Page [bank_company] [bank_company])) \<and>
   search_filter sample_platform False [49, 124, 50] [bank_company, acme_company]
     = Inr [bank_company] \<and>
   stock_code bank_company = Str [83, 90, 48, 48, 48, 48, 48, 49] \<and>
   \<not> ci_substring (char_eq sample_platform) [49, 124, 50] (cell_text (stock_code bank_company)) \<and>
   \<not> ci_substring (char_eq sample_platform) [49, 124, 50] (company_name bank_company)"
  using page_bar_term
  by (simp add: filter_defs ci_substring_code bank_company_def bank_row_def acme_company_def
      acme_row_def with_columns_def regex_defs)

text \<open>
  C7, amended. When the stock-code column holds texts (it was not read as numbers), then
  for every non-empty search term made of literal characters only (no alternation bar
  and none of the other metacharacters of regular expressions) the text filter keeps
  exactly the rows where the term occurs as a substring, case ignored, of the stock code
  or of the company name; an empty search term applies no text filter.
\<close>

theorem search_filter_literal:
  assumes "search_term \<noteq> []" and "literal search_term"
    and "\<not> numeric_codes" and "list_all (\<lambda>r. is_text (stock_code r)) df"
  shows "search_filter pf numeric_codes search_term df =
           Inr (filter (\<lambda>r. ci_substring (char_eq pf) search_term (cell_text (stock_code r)) \<or>
                            ci_substring (char_eq pf) search_term (company_name r)) df) \<and>
         search_filter pf numeric_codes [] df = Inr df"
proof -
  from assms(3,4) have acc: "str_accessor numeric_codes (map stock_code df)"
    by (cases df) (simp_all add: str_accessor_def)
  have sc: "str_contains_cells pf search_term (map stock_code df)
              = Inr (map (\<lambda>r. Some (re_search (char_eq pf) [search_term] (cell_text (stock_code r)))) df)"
    using assms(4)
    by (induction df)
      (auto simp: str_contains_cells_def re_compile_literal[OF assms(2)] is_text_def cell_text_def
        split: cell.splits)
  have sn: "str_contains pf search_term (map company_name df)
              = Inr (map (\<lambda>r. re_search (char_eq pf) [search_term] (company_name r)) df)"
    by (simp add: str_contains_def re_compile_literal[OF assms(2)] comp_def)
  from assms(1) acc show ?thesis
    by (simp add: search_filter_def sc sn select_rows_or_na ci_substring_code)
qed

theorem search_filter_literal_witness:
  "[65, 67, 77, 69] \<noteq> ([] :: ustring) \<and> literal [65, 67, 77, 69] \<and> \<not> False \<and>
   list_all (\<lambda>r. is_text (stock_code r)) [bank_company, acme_company] \<and>
   search_filter sample_platform False [65, 67, 77, 69] [bank_company, acme_company] =
     Inr (filter (\<lambda>r. ci_substring (char_eq sample_platform) [65, 67, 77, 69] (cell_text (stock_code r)) \<or>
                      ci_substring (char_eq sample_platform) [65, 67, 77, 69] (company_name r))
            [bank_company, acme_company]) \<and>
   search_filter sample_platform False [65, 67, 77, 69] [bank_company, acme_company]
     = Inr [acme_company] \<and>
   search_filter sample_platform False [] [bank_company, acme_company]
     = Inr [bank_company, acme_company]"
proof -
  have h1: "[65, 67, 77, 69] \<noteq> ([] :: ustring)" by simp
  have h2: "literal [65, 67, 77, 69]" by (simp add: literal_def BAR_def METACHARS_def)
  have h3: "\<not> False" by simp
  have h4: "list_all (\<lambda>r. is_text (stock_code r)) [bank_company, acme_company]"
    by (simp add: is_text_def bank_company_def bank_row_def acme_company_def acme_row_def
        with_columns_def)
  have ev: "filter (\<lambda>r. ci_substring (char_eq sample_platform) [65, 67, 77, 69] (cell_text (stock_code r)) \<or>
                        ci_substring (char_eq sample_platform) [65, 67, 77, 69] (company_name r))
              [bank_company, acme_company] = [acme_company]"
    by (simp add: ci_substring_code cell_text_def bank_company_def bank_row_def acme_company_def
        acme_row_def with_columns_def regex_defs)
  from search_filter_literal [OF h1 h2 h3 h4, of sample_platform] h1 h2 h4 ev
  show ?thesis by simp
qed

subsection \<open>C9: the classification is total\<close>

text \<open>
  C9. After classification every row carries exactly one of the eleven labels (the ten
  industries of the table and the default label), and a row whose company name contains
  no keyword of the table carries the default label.
\<close>

theorem classification_total:
  assumes "load_and_calculate_index pf f = (df, msgs)" and "r \<in> set df"
  shows "industry r \<in> set LABELS \<and> length LABELS = 11 \<and> distinct LABELS \<and>
         ((\<forall>(ind, kws) \<in> set INDUSTRY_MAPPING. \<forall>k \<in> set kws.
             \<not> ci_substring (char_eq pf) k (company_name r))
            \<longrightarrow> industry r = OTHER)"
proof -
  from loaded_row[OF assms] have lab: "industry r = label_of (char_eq pf) (company_name r)"
    by simp
  have "industry r \<in> set LABELS"
    using label_fold_in[of "char_eq pf" INDUSTRY_MAPPING "company_name r" OTHER] lab
    by (auto simp: LABELS_def label_of_def)
  moreover have "length LABELS = 11"
    by (simp add: LABELS_def INDUSTRY_MAPPING_def)
  moreover have "distinct LABELS"
    by (simp add: LABELS_def INDUSTRY_MAPPING_def FINANCE_def REAL_ESTATE_def MANUFACTURING_def
        TRANSPORT_def ENERGY_def INFO_TECH_def HEALTHCARE_def CONSUMER_def EDUCATION_def MEDIA_def
        OTHER_def)
  moreover have "(\<forall>(ind, kws) \<in> set INDUSTRY_MAPPING. \<forall>k \<in> set kws.
                    \<not> ci_substring (char_eq pf) k (company_name r))
            \<longrightarrow> industry r = OTHER"
  proof
    assume none: "\<forall>(ind, kws) \<in> set INDUSTRY_MAPPING. \<forall>k \<in> set kws.
                    \<not> ci_substring (char_eq pf) k (company_name r)"
    then have "matching (char_eq pf) (company_name r) = []"
      by (auto simp: matching_def kw_match_def filter_empty_conv)
    with lab show "industry r = OTHER" by (simp add: label_of_matching)
  qed
  ultimately show ?thesis by blast
qed

theorem classification_total_witness:
  "load_and_calculate_index sample_platform (Present (Inr [acme_row])) = ([acme_company], [Success 1]) \<and>
   acme_company \<in> set [acme_company] \<and>
   list_all (\<lambda>(ind, kws).
       list_all (\<lambda>k. \<not> ci_substring (char_eq sample_platform) k (company_name acme_company)) kws)
     INDUSTRY_MAPPING \<and>
   industry acme_company \<in> set LABELS \<and> length LABELS = 11 \<and> distinct LABELS \<and>
   industry acme_company = OTHER"
proof -
  have h2: "acme_company \<in> set [acme_company]" by simp
  have none: "\<forall>(ind, kws) \<in> set INDUSTRY_MAPPING. \<forall>k \<in> set kws.
                \<not> ci_substring (char_eq sample_platform) k (company_name acme_company)"
  proof -
    have "\<not> kw_match (char_eq sample_platform) (snd e) (company_name acme_company)"
      if "e \<in> set INDUSTRY_MAPPING" for e
    proof
      assume "kw_match (char_eq sample_platform) (snd e) (company_name acme_company)"
      with that have "e \<in> set (matching (char_eq sample_platform) (company_name acme_company))"
        by (auto simp: matching_def)
      then show False by (simp add: matching_acme)
    qed
    then show ?thesis by (fastforce simp: kw_match_def)
  qed
  then have none': "list_all (\<lambda>(ind, kws).
        list_all (\<lambda>k. \<not> ci_substring (char_eq sample_platform) k (company_name acme_company)) kws)
      INDUSTRY_MAPPING"
    by (auto simp: list_all_iff)
  from classification_total [OF load_acme h2] none
  have c: "industry acme_company \<in> set LABELS" "length LABELS = 11" "distinct LABELS"
    "industry acme_company = OTHER"
    by blast+
  from load_acme h2 none' c show ?thesis by blast
qed

subsection \<open>C10: the label depends on the company name only\<close>

text \<open>
  C10. The industry label of a row depends on its company name only: two loaded rows
  with the same company name carry the same label, whatever their stock codes,
  frequencies and total word counts, and whichever sheets they come from.
\<close>

theorem industry_depends_on_name_only:
  assumes "load_and_calculate_index pf f1 = (df1, msgs1)" and "r1 \<in> set df1"
    and "load_and_calculate_index pf f2 = (df2, msgs2)" and "r2 \<in> set df2"
    and "company_name r1 = company_name r2"
  shows "industry r1 = industry r2"
  using loaded_row[OF assms(1,2)] loaded_row[OF assms(3,4)] assms(5) by simp

theorem industry_depends_on_name_only_witness:
  "load_and_calculate_index sample_platform (Present (Inr [bank_row])) = ([bank_company], [Success 1]) \<and>
   bank_company \<in> set [bank_company] \<and>
   load_and_calculate_index sample_platform (Present (Inr [bank_row_b]))
     = ([bank_company_b], [Success 1]) \<and>
   bank_company_b \<in> set [bank_company_b] \<and>
   company_name bank_company = company_name bank_company_b \<and>
   stock_code bank_company \<noteq> stock_code bank_company_b \<and>
   freq bank_company \<noteq> freq bank_company_b \<and>
   total_word_count bank_company \<noteq> total_word_count bank_company_b \<and>
   industry bank_company = industry bank_company_b"
proof -
  have h2: "bank_company \<in> set [bank_company]" by simp
  have h4: "bank_company_b \<in> set [bank_company_b]" by simp
  have h5: "company_name bank_company = company_name bank_company_b"
    by (simp add: bank_company_def bank_company_b_def bank_row_def bank_row_b_def with_columns_def)
  have diff: "stock_code bank_company \<noteq> stock_code bank_company_b"
    "freq bank_company \<noteq> freq bank_company_b"
    "total_word_count bank_company \<noteq> total_word_count bank_company_b"
    by (simp_all add: bank_company_def bank_company_b_def bank_row_def bank_row_b_def
        with_columns_def sample_freq_def)
  from industry_depends_on_name_only [OF load_bank h2 load_bank_b h4 h5]
    load_bank h2 load_bank_b h4 h5 diff
  show ?thesis by simp
qed

end
